theory Spec2Isabelle
  imports Main "HOL-Library.Word"
begin

section \<open>The inference bridge of PlastiWatch: data model\<close>

text \<open>
  The bridge is compiled for the ESP32-C3, a 32-bit RISC-V core: \<open>size_t\<close> is an unsigned
  32-bit integer whose arithmetic wraps around, and \<open>int32_t\<close> is its two's complement
  reading. A \<open>float\<close> is four bytes; the bridge only copies floats and never computes with
  them, so a float is represented by its 32-bit pattern.
\<close>

type_synonym size_t = "32 word"
type_synonym int32_t = "32 word"
type_synonym cfloat = "32 word"

definition sizeof_float :: size_t where
  "sizeof_float = 4"

text \<open>
  A pointer is either \<open>nullptr\<close> or the address of something. The address of a float is
  the array (memory block) it lives in together with its index there; the address of a
  result structure is the block holding that structure.
\<close>

datatype 'a pointer = nullptr | Ptr 'a

type_synonym float_ptr = "(nat \<times> nat) pointer"
type_synonym result_ptr = "nat pointer"

text \<open>
  Modelled from the spec: the declaration of the result structure \<open>ei_impulse_result_t\<close>
  belongs to the classification SDK and is missing here. The spec has it as an opaque
  record of which the bridge accesses one sub-field, a fixed-length array of per-label
  scalar confidence scores; the bridge reads it as \<open>result->classification[i].value\<close>,
  so the array holds per-label records with a float field \<open>value\<close> (named
  \<open>value_f\<close> here).
\<close>

record ei_impulse_result_classification_t =
  value_f :: cfloat

record ei_impulse_result_t =
  classification :: "ei_impulse_result_classification_t list"

text \<open>
  The state the bridge works on: its two thread-local variables (of the one thread that is
  modelled), the float arrays and the result structures that exist in memory.
\<close>

record bridge_state =
  g_current_signal_data :: float_ptr
  g_current_signal_size :: size_t
  float_mem :: "nat \<Rightarrow> cfloat list option"
  result_mem :: "nat \<Rightarrow> ei_impulse_result_t option"

text \<open>
  What C leaves undefined is an explicit outcome: a read or a write through a pointer that
  does not address that many floats of a live block, and a \<open>memcpy\<close> whose source and
  destination overlap. A computation that reaches one of them has no result state.
\<close>

datatype fault = Invalid_Read | Invalid_Write | Overlapping_Copy

text \<open>
  Modelled from the spec: the declaration of the SDK's outcome enumeration
  \<open>EI_IMPULSE_ERROR\<close> is missing here. The spec has it as the runtime's own error
  enumeration with one designated OK sentinel: \<open>EI_IMPULSE_OK\<close>, and every other
  enumerator, told apart by its code.
\<close>

datatype EI_IMPULSE_ERROR = EI_IMPULSE_OK | EI_IMPULSE_FAILURE int

text \<open>
  Modelled from the spec: the two compile-time constants are defined by the generated
  \<open>model_metadata.h\<close>, which is missing here. The spec's scenario has the frame size
  375 and the label count 4, and so do the comments of the wrapper's header.
\<close>

definition EI_CLASSIFIER_DSP_INPUT_FRAME_SIZE :: size_t where
  "EI_CLASSIFIER_DSP_INPUT_FRAME_SIZE = 375"

definition EI_CLASSIFIER_LABEL_COUNT :: size_t where
  "EI_CLASSIFIER_LABEL_COUNT = 4"

section \<open>Memory operations\<close>

text \<open>Pointer arithmetic \<open>p + n\<close> on a float pointer moves the index inside the block.\<close>

fun ptr_add :: "float_ptr \<Rightarrow> size_t \<Rightarrow> float_ptr" where
  "ptr_add nullptr n = nullptr"
| "ptr_add (Ptr (b, i)) n = Ptr (b, i + unat n)"

text \<open>
  \<open>std::memcpy(dst, src, nbytes)\<close> on float arrays. The bridge only passes byte counts
  that are a multiple of the size of a float, so \<open>nbytes div 4\<close> whole floats are copied.
  The source range must lie inside a live block, the destination range likewise, and the
  two must not overlap.
\<close>

definition memcpy ::
  "float_ptr \<Rightarrow> float_ptr \<Rightarrow> size_t \<Rightarrow> (nat \<Rightarrow> cfloat list option)
     \<Rightarrow> fault + (nat \<Rightarrow> cfloat list option)" where
  "memcpy dst src nbytes m =
     (let n = unat nbytes div unat sizeof_float in
      case src of
        nullptr \<Rightarrow> Inl Invalid_Read
      | Ptr (sb, si) \<Rightarrow>
         (case m sb of
            None \<Rightarrow> Inl Invalid_Read
          | Some xs \<Rightarrow>
             if length xs < si + n then Inl Invalid_Read
             else
              (case dst of
                 nullptr \<Rightarrow> Inl Invalid_Write
               | Ptr (db, di) \<Rightarrow>
                  (case m db of
                     None \<Rightarrow> Inl Invalid_Write
                   | Some ys \<Rightarrow>
                      if length ys < di + n then Inl Invalid_Write
                      else if db = sb \<and> si < di + n \<and> di < si + n then Inl Overlapping_Copy
                      else Inr (m(db \<mapsto> take di ys @ take n (drop si xs) @ drop (di + n) ys))))))"

text \<open>Reading \<open>result->classification[i].value\<close> and writing \<open>out_values[i] = v\<close>.\<close>

definition read_classification_value ::
  "result_ptr \<Rightarrow> size_t \<Rightarrow> bridge_state \<Rightarrow> fault + cfloat" where
  "read_classification_value result i st =
     (case result of
        nullptr \<Rightarrow> Inl Invalid_Read
      | Ptr r \<Rightarrow>
         (case result_mem st r of
            None \<Rightarrow> Inl Invalid_Read
          | Some res \<Rightarrow>
             if unat i < length (classification res)
             then Inr (value_f (classification res ! unat i))
             else Inl Invalid_Read))"

definition write_float ::
  "float_ptr \<Rightarrow> size_t \<Rightarrow> cfloat \<Rightarrow> bridge_state \<Rightarrow> fault + bridge_state" where
  "write_float out i v st =
     (case out of
        nullptr \<Rightarrow> Inl Invalid_Write
      | Ptr (b, j) \<Rightarrow>
         (case float_mem st b of
            None \<Rightarrow> Inl Invalid_Write
          | Some ys \<Rightarrow>
             if j + unat i < length ys
             then Inr (st\<lparr>float_mem := (float_mem st)(b \<mapsto> ys[j + unat i := v])\<rparr>)
             else Inl Invalid_Write))"

section \<open>The signal adapter\<close>

text \<open>
  \<open>signal_get_data_callback(offset, length, out_ptr)\<close>. Both comparisons are on
  \<open>size_t\<close>: the sum \<open>offset + length\<close> and the byte count \<open>length * sizeof(float)\<close>
  are computed modulo \<open>2^32\<close>. The return value is the C \<open>int\<close>.
\<close>

definition signal_get_data_callback ::
  "size_t \<Rightarrow> size_t \<Rightarrow> float_ptr \<Rightarrow> bridge_state \<Rightarrow> fault + (int \<times> bridge_state)" where
  "signal_get_data_callback offset len out_ptr st =
     (if g_current_signal_data st = nullptr then Inr (- 1, st)
      else if g_current_signal_size st < offset + len then Inr (- 1, st)
      else
       (case memcpy out_ptr (ptr_add (g_current_signal_data st) offset)
               (len * sizeof_float) (float_mem st) of
          Inl f \<Rightarrow> Inl f
        | Inr m \<Rightarrow> Inr (0, st\<lparr>float_mem := m\<rparr>)))"

text \<open>
  The signal handle \<open>ei::signal_t\<close> (built with C function pointers): the declared total
  length and the read callback. The classification entry point \<open>run_classifier\<close>, a
  pass-through to the SDK's \<open>process_impulse\<close>, is external to the bridge and is a
  parameter: any function that takes the handle, the result pointer and the debug flag,
  works on the state (it may call the callback any number of times and write the result
  structure) and either returns an outcome or ends in a fault.
\<close>

type_synonym get_data_fn =
  "size_t \<Rightarrow> size_t \<Rightarrow> float_ptr \<Rightarrow> bridge_state \<Rightarrow> fault + (int \<times> bridge_state)"

record signal_t =
  total_length :: size_t
  get_data :: get_data_fn

type_synonym run_classifier_fn =
  "signal_t \<Rightarrow> result_ptr \<Rightarrow> bool \<Rightarrow> bridge_state
     \<Rightarrow> fault + (EI_IMPULSE_ERROR \<times> bridge_state)"

section \<open>The invocation adapter\<close>

definition ei_run_classifier_ffi ::
  "run_classifier_fn \<Rightarrow> float_ptr \<Rightarrow> result_ptr \<Rightarrow> int \<Rightarrow> bridge_state
     \<Rightarrow> fault + (int \<times> bridge_state)" where
  "ei_run_classifier_ffi run_classifier features result debug st =
     (if features = nullptr \<or> result = nullptr then Inr (- 1, st)
      else
       (let st1 = st\<lparr>g_current_signal_data := features,
                       g_current_signal_size := EI_CLASSIFIER_DSP_INPUT_FRAME_SIZE\<rparr>;
            signal = \<lparr>total_length = EI_CLASSIFIER_DSP_INPUT_FRAME_SIZE,
                      get_data = signal_get_data_callback\<rparr>
        in case run_classifier signal result (debug \<noteq> 0) st1 of
             Inl f \<Rightarrow> Inl f
           | Inr (err, st2) \<Rightarrow>
               Inr (if err = EI_IMPULSE_OK then 0 else - 1,
                    st2\<lparr>g_current_signal_data := nullptr, g_current_signal_size := 0\<rparr>)))"

section \<open>The result extractor\<close>

text \<open>
  The loop \<open>for (size_t i = 0; i < EI_CLASSIFIER_LABEL_COUNT; i++)\<close> of
  \<open>ei_get_classification_values\<close>, from the counter \<open>i\<close> on.
\<close>

function values_loop ::
  "result_ptr \<Rightarrow> float_ptr \<Rightarrow> size_t \<Rightarrow> bridge_state \<Rightarrow> fault + bridge_state" where
  "values_loop result out_values i st =
     (if i < EI_CLASSIFIER_LABEL_COUNT then
        (case read_classification_value result i st of
           Inl f \<Rightarrow> Inl f
         | Inr v \<Rightarrow>
            (case write_float out_values i v st of
               Inl f \<Rightarrow> Inl f
             | Inr st' \<Rightarrow> values_loop result out_values (i + 1) st'))
      else Inr st)"
  by pat_completeness auto
termination
proof (relation "measure (\<lambda>(result, out_values, i, st). unat EI_CLASSIFIER_LABEL_COUNT - unat i)")
  show "wf (measure (\<lambda>(result, out_values, i, st). unat EI_CLASSIFIER_LABEL_COUNT - unat i))"
    by simp
next
  fix result :: result_ptr and out_values :: float_ptr and i :: size_t
    and st st' :: bridge_state and v :: cfloat
  assume "i < EI_CLASSIFIER_LABEL_COUNT"
  then have lt: "unat i < 4"
    by (simp add: EI_CLASSIFIER_LABEL_COUNT_def word_less_nat_alt)
  then have "unat (i + 1) = unat i + 1"
    by (simp add: unat_word_ariths)
  with lt show "((result, out_values, i + 1, st'), (result, out_values, i, st))
      \<in> measure (\<lambda>(result, out_values, i, st). unat EI_CLASSIFIER_LABEL_COUNT - unat i)"
    by (simp add: EI_CLASSIFIER_LABEL_COUNT_def)
qed

declare values_loop.simps [simp del]

definition ei_get_classification_values ::
  "result_ptr \<Rightarrow> float_ptr \<Rightarrow> bridge_state \<Rightarrow> fault + (int \<times> bridge_state)" where
  "ei_get_classification_values result out_values st =
     (if result = nullptr \<or> out_values = nullptr then Inr (- 1, st)
      else
       (case values_loop result out_values 0 st of
          Inl f \<Rightarrow> Inl f
        | Inr st' \<Rightarrow> Inr (0, st')))"

section \<open>The host primitives\<close>

text \<open>
  Modelled from the spec: the platform's delay call \<open>vTaskDelay\<close> and its logging call
  \<open>ESP_LOGI\<close> (a tagged line) are outbound calls to the host platform, whose code is
  missing here. The platform is seen through the calls made to it: the tick counts passed
  to \<open>vTaskDelay\<close> and the tagged lines passed to \<open>ESP_LOGI\<close>, in call order.
\<close>

record platform =
  delay_calls :: "32 word list"
  log_calls :: "(string \<times> string) list"

definition vTaskDelay :: "32 word \<Rightarrow> platform \<Rightarrow> platform" where
  "vTaskDelay ticks p = p\<lparr>delay_calls := delay_calls p @ [ticks]\<rparr>"

definition ESP_LOGI :: "string \<Rightarrow> string \<Rightarrow> platform \<Rightarrow> platform" where
  "ESP_LOGI tag line p = p\<lparr>log_calls := log_calls p @ [(tag, line)]\<rparr>"

text \<open>
  \<open>ei_sleep(time_ms)\<close>. The comparison \<open>time_ms < 0\<close> is signed. The FreeRTOS macro
  \<open>pdMS_TO_TICKS\<close> depends on the configured tick rate and is a parameter.
\<close>

definition ei_sleep ::
  "(int32_t \<Rightarrow> 32 word) \<Rightarrow> int32_t \<Rightarrow> platform \<Rightarrow> EI_IMPULSE_ERROR \<times> platform" where
  "ei_sleep pdMS_TO_TICKS time_ms p =
     (if time_ms <s 0 then (EI_IMPULSE_OK, p)
      else (EI_IMPULSE_OK, vTaskDelay (pdMS_TO_TICKS time_ms) p))"

text \<open>
  Modelled from the spec: the C library's \<open>vsnprintf(buffer, n, format, args)\<close> is
  missing here. The spec has the formatting bounded by a fixed maximum length, and
  truncated beyond it; the C standard has the rest. Given the text that the format and its
  arguments expand to, at most \<open>n - 1\<close> characters of it are stored, followed by the
  terminating NUL, and the return value is the length of the whole text (negative when
  that does not fit an \<open>int\<close>). A buffer printed with \<open>%s\<close> is read up to its first
  NUL.
\<close>

definition vsnprintf :: "nat \<Rightarrow> string \<Rightarrow> string \<times> int" where
  "vsnprintf n text =
     (take (n - 1) text, if length text \<le> 2147483647 then int (length text) else - 1)"

definition c_string :: "string \<Rightarrow> string" where
  "c_string buffer = takeWhile (\<lambda>c. c \<noteq> CHR 0x00) buffer"

text \<open>\<open>ei_printf(format, ...)\<close> with its 256-byte buffer.\<close>

definition ei_printf :: "string \<Rightarrow> platform \<Rightarrow> platform" where
  "ei_printf text p =
     (case vsnprintf 256 text of
        (buffer, len) \<Rightarrow>
          if 0 < len \<and> len < 256 then ESP_LOGI ''EI'' (c_string buffer) p else p)"

section \<open>Observations and worked instances\<close>

text \<open>
  \<open>read_floats p n m\<close> is what a reader finds in the \<open>n\<close> floats at \<open>p\<close> in memory
  \<open>m\<close>, when \<open>p\<close> addresses that many floats of a live block.
\<close>

definition read_floats ::
  "float_ptr \<Rightarrow> nat \<Rightarrow> (nat \<Rightarrow> cfloat list option) \<Rightarrow> cfloat list option" where
  "read_floats p n m =
     (case p of
        nullptr \<Rightarrow> None
      | Ptr (b, i) \<Rightarrow>
         (case m b of
            None \<Rightarrow> None
          | Some xs \<Rightarrow> if i + n \<le> length xs then Some (take n (drop i xs)) else None))"

text \<open>
  A concrete memory for the worked instances: block 0 is a feature buffer of 375 samples,
  block 2 a destination of four floats, and result block 0 a result structure with four
  scores. \<open>example_state\<close> has the buffer installed as the per-call context, \<open>idle_state\<close>
  has no context.
\<close>

definition example_buffer :: "cfloat list" where
  "example_buffer = [11, 22, 33] @ replicate 372 0"

definition example_result :: ei_impulse_result_t where
  "example_result = \<lparr>classification =
     [\<lparr>value_f = 5\<rparr>, \<lparr>value_f = 6\<rparr>, \<lparr>value_f = 7\<rparr>, \<lparr>value_f = 8\<rparr>]\<rparr>"

definition idle_state :: bridge_state where
  "idle_state = \<lparr>g_current_signal_data = nullptr, g_current_signal_size = 0,
     float_mem = [0 \<mapsto> example_buffer, 2 \<mapsto> [0, 0, 0, 0]],
     result_mem = [0 \<mapsto> example_result]\<rparr>"

definition example_state :: bridge_state where
  "example_state = idle_state\<lparr>g_current_signal_data := Ptr (0, 0),
     g_current_signal_size := EI_CLASSIFIER_DSP_INPUT_FRAME_SIZE\<rparr>"

text \<open>
  A runtime for the worked instances: it pulls samples 1 and 2 through the handle into the
  destination block and then reports the given outcome (or a failure of its own when the
  pull is refused).
\<close>

definition example_runtime :: "EI_IMPULSE_ERROR \<Rightarrow> run_classifier_fn" where
  "example_runtime outcome signal result debug st =
     (case get_data signal 1 2 (Ptr (2, 2)) st of
        Inl f \<Rightarrow> Inl f
      | Inr (r, st') \<Rightarrow> Inr (if r = 0 then outcome else EI_IMPULSE_FAILURE (- 1), st'))"

section \<open>Arithmetic on \<open>size_t\<close>\<close>

lemma unat_sum_no_wrap:
  fixes offset len sz :: size_t
  assumes "unat offset + unat len \<le> unat sz"
  shows "unat (offset + len) = unat offset + unat len"
proof -
  have "unat sz < 2 ^ 32"
    using unsigned_less [of sz] by simp
  with assms have "unat offset + unat len < 2 ^ LENGTH(32)"
    by simp
  then show ?thesis
    by (simp only: unat_add_lem)
qed

lemma unat_bytes_no_wrap:
  fixes len :: size_t
  assumes "unat len < 2 ^ 30"
  shows "unat (len * sizeof_float) div unat sizeof_float = unat len"
proof -
  have "unat len * unat (4 :: size_t) < 2 ^ LENGTH(32)"
    using assms by simp
  then have "unat (len * 4) = unat len * unat (4 :: size_t)"
    by (simp only: unat_mult_lem)
  then show ?thesis
    by (simp add: sizeof_float_def)
qed

lemma unat_frame_size: "unat EI_CLASSIFIER_DSP_INPUT_FRAME_SIZE = 375"
  by (simp add: EI_CLASSIFIER_DSP_INPUT_FRAME_SIZE_def)

section \<open>Facts about the worked instances\<close>

lemma example_state_simps:
  "g_current_signal_data example_state = Ptr (0, 0)"
  "g_current_signal_size example_state = EI_CLASSIFIER_DSP_INPUT_FRAME_SIZE"
  "float_mem example_state 0 = Some example_buffer"
  "float_mem example_state 2 = Some [0, 0, 0, 0]"
  "result_mem example_state 0 = Some example_result"
  by (simp_all add: example_state_def idle_state_def)

lemma length_example_buffer: "length example_buffer = 375"
  by (simp add: example_buffer_def)

lemma example_slice: "take 2 (drop (Suc 0) example_buffer) = [22, 33]"
  by (simp add: example_buffer_def)

section \<open>The signal adapter: properties\<close>

lemma memcpy_ok:
  assumes "m sb = Some xs" "si + n \<le> length xs"
      and "m db = Some ys" "di + n \<le> length ys"
      and "\<not> (db = sb \<and> si < di + n \<and> di < si + n)"
      and "unat nbytes div unat sizeof_float = n"
  shows "memcpy (Ptr (db, di)) (Ptr (sb, si)) nbytes m =
           Inr (m(db \<mapsto> take di ys @ take n (drop si xs) @ drop (di + n) ys))"
  using assms by (auto simp: memcpy_def Let_def)

lemma read_floats_written:
  assumes "j + n \<le> length ys" "length zs = n"
  shows "read_floats (Ptr (d, j)) n (m(d \<mapsto> take j ys @ zs @ drop (j + n) ys)) = Some zs"
  using assms by (simp add: read_floats_def)

text \<open>
  The successful path, for any installed length below \<open>2^30\<close> (so that the byte count
  does not wrap): a request inside the installed length, on a buffer that holds that many
  samples, into a destination that holds \<open>len\<close> floats apart from the source range.
\<close>

lemma signal_get_data_callback_in_bounds:
  assumes active: "g_current_signal_data st = Ptr (b, i)"
      and bounds: "unat offset + unat len \<le> unat (g_current_signal_size st)"
      and small: "unat (g_current_signal_size st) < 2 ^ 30"
      and buffer: "float_mem st b = Some xs" "i + unat (g_current_signal_size st) \<le> length xs"
      and dest: "float_mem st d = Some ys" "j + unat len \<le> length ys"
      and apart: "\<not> (d = b \<and> i + unat offset < j + unat len \<and> j < i + unat offset + unat len)"
  shows "signal_get_data_callback offset len (Ptr (d, j)) st =
           Inr (0, st\<lparr>float_mem := (float_mem st)(d \<mapsto>
                  take j ys @ take (unat len) (drop (i + unat offset) xs) @ drop (j + unat len) ys)\<rparr>)"
proof -
  have sum: "unat (offset + len) = unat offset + unat len"
    using bounds by (rule unat_sum_no_wrap)
  then have check: "\<not> g_current_signal_size st < offset + len"
    using bounds by (simp add: word_less_nat_alt)
  have "unat len < 2 ^ 30"
    using bounds small by simp
  then have n: "unat (len * sizeof_float) div unat sizeof_float = unat len"
    by (rule unat_bytes_no_wrap)
  have src: "i + unat offset + unat len \<le> length xs"
    using bounds buffer(2) by simp
  have "memcpy (Ptr (d, j)) (Ptr (b, i + unat offset)) (len * sizeof_float) (float_mem st) =
          Inr ((float_mem st)(d \<mapsto>
                  take j ys @ take (unat len) (drop (i + unat offset) xs) @ drop (j + unat len) ys))"
    using buffer(1) src dest apart n by (rule memcpy_ok)
  with active check show ?thesis
    by (simp add: signal_get_data_callback_def)
qed

text \<open>
  The bounds check rejects every request whose sum \<open>offset + length\<close> exceeds the
  installed length without wrapping around \<open>2^32\<close>.
\<close>

lemma signal_get_data_callback_rejects_unwrapped:
  assumes "unat offset + unat len < 2 ^ 32"
      and "unat (g_current_signal_size st) < unat offset + unat len"
  shows "signal_get_data_callback offset len out_ptr st = Inr (- 1, st)"
proof -
  have "unat offset + unat len < 2 ^ LENGTH(32)"
    using assms(1) by simp
  then have "unat (offset + len) = unat offset + unat len"
    by (simp only: unat_add_lem)
  with assms(2) have "g_current_signal_size st < offset + len"
    by (simp add: word_less_nat_alt)
  then show ?thesis
    by (simp add: signal_get_data_callback_def)
qed

text \<open>
  Claim C7. A pull request that arrives while no per-call context is installed (the
  thread-local data pointer is null) returns the error sentinel \<open>-1\<close>, whatever the
  offset, the length and the destination are, and leaves the whole state as it was:
  nothing is read and nothing is written.
\<close>

theorem signal_get_data_callback_without_context:
  assumes "g_current_signal_data st = nullptr"
  shows "signal_get_data_callback offset len out_ptr st = Inr (- 1, st)"
  using assms by (simp add: signal_get_data_callback_def)

theorem signal_get_data_callback_without_context_witness:
  "g_current_signal_data idle_state = nullptr \<and>
   signal_get_data_callback 1 2 (Ptr (2, 2)) idle_state = Inr (- 1, idle_state)"
proof -
  have idle: "g_current_signal_data idle_state = nullptr"
    by (simp add: idle_state_def)
  from idle signal_get_data_callback_without_context [OF idle, of 1 2 "Ptr (2, 2)"]
  show ?thesis by simp
qed

text \<open>
  Claim C10. Every invocation of the read callback that returns, with success or with the
  error sentinel, leaves the per-call context as it found it: the thread-local data pointer
  and size after the call are those before it.
\<close>

theorem signal_get_data_callback_keeps_context:
  assumes "signal_get_data_callback offset len out_ptr st = Inr (r, st')"
  shows "g_current_signal_data st' = g_current_signal_data st \<and>
         g_current_signal_size st' = g_current_signal_size st"
  using assms
  by (auto simp: signal_get_data_callback_def split: if_splits sum.splits)

lemma example_pull:
  "signal_get_data_callback 1 2 (Ptr (2, 2)) example_state =
     Inr (0, example_state\<lparr>float_mem := (float_mem example_state)(2 \<mapsto> [0, 0, 22, 33])\<rparr>)"
proof -
  have "signal_get_data_callback 1 2 (Ptr (2, 2)) example_state =
     Inr (0, example_state\<lparr>float_mem := (float_mem example_state)(2 \<mapsto>
        take 2 [0, 0, 0, 0]
        @ take (unat (2 :: size_t)) (drop (0 + unat (1 :: size_t)) example_buffer)
        @ drop (2 + unat (2 :: size_t)) [0, 0, 0, 0])\<rparr>)"
    by (rule signal_get_data_callback_in_bounds [where b = 0 and i = 0])
       (simp_all add: example_state_simps unat_frame_size length_example_buffer)
  then show ?thesis
    by (simp add: example_slice)
qed

theorem signal_get_data_callback_keeps_context_witness:
  "signal_get_data_callback 1 2 (Ptr (2, 2)) example_state =
     Inr (0, example_state\<lparr>float_mem := (float_mem example_state)(2 \<mapsto> [0, 0, 22, 33])\<rparr>) \<and>
   g_current_signal_data
     (example_state\<lparr>float_mem := (float_mem example_state)(2 \<mapsto> [0, 0, 22, 33])\<rparr>)
     = g_current_signal_data example_state \<and>
   g_current_signal_size
     (example_state\<lparr>float_mem := (float_mem example_state)(2 \<mapsto> [0, 0, 22, 33])\<rparr>)
     = g_current_signal_size example_state"
  using example_pull signal_get_data_callback_keeps_context [OF example_pull]
  by simp

text \<open>
  Claim C3. While a per-call context is active with the compile-time frame size as its
  declared length, every request \<open>(offset, length)\<close> with
  \<open>offset + length \<le> declaredLength\<close> returns success \<open>0\<close> and copies exactly
  \<open>length\<close> samples: the destination block is what it was, except that the \<open>length\<close>
  floats at the destination pointer are now the \<open>length\<close> floats found at
  \<open>offset\<close> in the feature buffer, element for element. The pointers are those of a
  well-formed call: the buffer holds the declared number of samples, the destination holds
  \<open>length\<close> floats, and the two ranges do not overlap.
\<close>

theorem signal_get_data_callback_copies_slice:
  assumes active: "g_current_signal_data st = Ptr (b, i)"
      and size: "g_current_signal_size st = EI_CLASSIFIER_DSP_INPUT_FRAME_SIZE"
      and bounds: "unat offset + unat len \<le> unat EI_CLASSIFIER_DSP_INPUT_FRAME_SIZE"
      and buffer: "float_mem st b = Some xs"
                  "i + unat EI_CLASSIFIER_DSP_INPUT_FRAME_SIZE \<le> length xs"
      and dest: "float_mem st d = Some ys" "j + unat len \<le> length ys"
      and apart: "\<not> (d = b \<and> i + unat offset < j + unat len \<and> j < i + unat offset + unat len)"
  shows "signal_get_data_callback offset len (Ptr (d, j)) st =
           Inr (0, st\<lparr>float_mem := (float_mem st)(d \<mapsto>
                  take j ys @ take (unat len) (drop (i + unat offset) xs) @ drop (j + unat len) ys)\<rparr>)
         \<and> read_floats (ptr_add (g_current_signal_data st) offset) (unat len) (float_mem st)
             = Some (take (unat len) (drop (i + unat offset) xs))
         \<and> read_floats (Ptr (d, j)) (unat len) ((float_mem st)(d \<mapsto>
                  take j ys @ take (unat len) (drop (i + unat offset) xs) @ drop (j + unat len) ys))
             = Some (take (unat len) (drop (i + unat offset) xs))
         \<and> length (take (unat len) (drop (i + unat offset) xs)) = unat len"
proof -
  have src: "i + unat offset + unat len \<le> length xs"
    using bounds buffer(2) by simp
  then have len: "length (take (unat len) (drop (i + unat offset) xs)) = unat len"
    by simp
  have "signal_get_data_callback offset len (Ptr (d, j)) st =
           Inr (0, st\<lparr>float_mem := (float_mem st)(d \<mapsto>
                  take j ys @ take (unat len) (drop (i + unat offset) xs) @ drop (j + unat len) ys)\<rparr>)"
    using active bounds buffer dest apart
    by (intro signal_get_data_callback_in_bounds) (simp_all add: size unat_frame_size)
  moreover have "read_floats (ptr_add (g_current_signal_data st) offset) (unat len) (float_mem st)
             = Some (take (unat len) (drop (i + unat offset) xs))"
    using active buffer(1) src by (simp add: read_floats_def)
  moreover have "read_floats (Ptr (d, j)) (unat len) ((float_mem st)(d \<mapsto>
                  take j ys @ take (unat len) (drop (i + unat offset) xs) @ drop (j + unat len) ys))
             = Some (take (unat len) (drop (i + unat offset) xs))"
    using dest(2) len by (rule read_floats_written)
  ultimately show ?thesis
    using len by simp
qed

theorem signal_get_data_callback_copies_slice_witness:
  "unat (1 :: size_t) + unat (2 :: size_t) \<le> unat EI_CLASSIFIER_DSP_INPUT_FRAME_SIZE \<and>
   signal_get_data_callback 1 2 (Ptr (2, 2)) example_state =
     Inr (0, example_state\<lparr>float_mem := (float_mem example_state)(2 \<mapsto> [0, 0, 22, 33])\<rparr>) \<and>
   read_floats (Ptr (0, 1)) 2 (float_mem example_state) = Some [22, 33] \<and>
   read_floats (Ptr (2, 2)) 2 ((float_mem example_state)(2 \<mapsto> [0, 0, 22, 33])) = Some [22, 33]"
proof -
  have bounds: "unat (1 :: size_t) + unat (2 :: size_t) \<le> unat EI_CLASSIFIER_DSP_INPUT_FRAME_SIZE"
    by (simp add: unat_frame_size)
  have buffer: "0 + unat EI_CLASSIFIER_DSP_INPUT_FRAME_SIZE \<le> length example_buffer"
    by (simp add: unat_frame_size length_example_buffer)
  have dest: "2 + unat (2 :: size_t) \<le> length [0 :: cfloat, 0, 0, 0]"
    by simp
  have apart: "\<not> ((2 :: nat) = 0 \<and> 0 + unat (1 :: size_t) < 2 + unat (2 :: size_t)
                  \<and> 2 < 0 + unat (1 :: size_t) + unat (2 :: size_t))"
    by simp
  from signal_get_data_callback_copies_slice
         [OF example_state_simps(1) example_state_simps(2) bounds example_state_simps(3) buffer
             example_state_simps(4) dest apart]
  show ?thesis
    using bounds by (simp add: example_state_simps example_slice)
qed

text \<open>
  Claim C1, at the request \<open>(offset, length) = (0xFFFFFFFF, 2)\<close> on an active context
  of the declared length 375. The sum \<open>offset + length\<close> is 4294967297 and exceeds the
  declared length, so the claim asks for the error sentinel before any memory access. The
  code computes the sum in \<open>size_t\<close>, where it wraps around to 1; the bounds check lets
  the request through and \<open>memcpy\<close> reads two floats at \<open>data + 0xFFFFFFFF\<close>, outside
  the feature buffer.
\<close>

theorem signal_get_data_callback_wrapped_sum:
  "unat (g_current_signal_size example_state)
     < unat (0xFFFFFFFF :: size_t) + unat (2 :: size_t) \<and>
   signal_get_data_callback 0xFFFFFFFF 2 (Ptr (2, 2)) example_state = Inl Invalid_Read \<and>
   signal_get_data_callback 0xFFFFFFFF 2 (Ptr (2, 2)) example_state \<noteq> Inr (- 1, example_state)"
  by (simp add: signal_get_data_callback_def memcpy_def example_state_def idle_state_def
        example_buffer_def EI_CLASSIFIER_DSP_INPUT_FRAME_SIZE_def sizeof_float_def)

section \<open>The invocation adapter: properties\<close>

text \<open>
  The example runtime on the example memory: one invocation pulls two samples into the
  destination block, and the context is cleared afterwards.
\<close>

lemma example_runtime_run:
  "example_runtime outcome
     \<lparr>total_length = EI_CLASSIFIER_DSP_INPUT_FRAME_SIZE, get_data = signal_get_data_callback\<rparr>
     (Ptr 0) dbg
     (idle_state\<lparr>g_current_signal_data := Ptr (0, 0),
        g_current_signal_size := EI_CLASSIFIER_DSP_INPUT_FRAME_SIZE\<rparr>) =
   Inr (outcome, example_state\<lparr>float_mem := (float_mem example_state)(2 \<mapsto> [0, 0, 22, 33])\<rparr>)"
  using example_pull by (simp add: example_runtime_def example_state_def)

lemma example_cleared:
  "example_state\<lparr>float_mem := (float_mem example_state)(2 \<mapsto> [0, 0, 22, 33]),
      g_current_signal_data := nullptr, g_current_signal_size := 0\<rparr> =
   idle_state\<lparr>float_mem := (float_mem idle_state)(2 \<mapsto> [0, 0, 22, 33])\<rparr>"
  by (simp add: example_state_def idle_state_def)

lemma example_invocation:
  "ei_run_classifier_ffi (example_runtime outcome) (Ptr (0, 0)) (Ptr 0) debug idle_state =
     Inr (if outcome = EI_IMPULSE_OK then 0 else - 1,
          idle_state\<lparr>float_mem := (float_mem idle_state)(2 \<mapsto> [0, 0, 22, 33])\<rparr>)"
  by (simp add: ei_run_classifier_ffi_def example_runtime_run example_cleared)

text \<open>
  Claim C2. For a non-null feature-buffer pointer and a non-null result pointer, whenever
  \<open>ei_run_classifier_ffi\<close> returns, whatever the external runtime did and whether it
  reported OK or an error, the per-call context is cleared: the thread-local data pointer
  is null and the thread-local size is 0.
\<close>

theorem ei_run_classifier_ffi_clears_context:
  assumes "features \<noteq> nullptr" and "result \<noteq> nullptr"
      and "ei_run_classifier_ffi run_classifier features result debug st = Inr (status, st')"
  shows "g_current_signal_data st' = nullptr \<and> g_current_signal_size st' = 0"
  using assms
  by (auto simp: ei_run_classifier_ffi_def Let_def split: sum.splits prod.splits)

theorem ei_run_classifier_ffi_clears_context_witness:
  "(Ptr (0, 0) :: float_ptr) \<noteq> nullptr \<and> (Ptr 0 :: result_ptr) \<noteq> nullptr \<and>
   ei_run_classifier_ffi (example_runtime EI_IMPULSE_OK) (Ptr (0, 0)) (Ptr 0) 0 idle_state =
     Inr (0, idle_state\<lparr>float_mem := (float_mem idle_state)(2 \<mapsto> [0, 0, 22, 33])\<rparr>) \<and>
   ei_run_classifier_ffi (example_runtime (EI_IMPULSE_FAILURE (- 3))) (Ptr (0, 0)) (Ptr 0) 0 idle_state =
     Inr (- 1, idle_state\<lparr>float_mem := (float_mem idle_state)(2 \<mapsto> [0, 0, 22, 33])\<rparr>) \<and>
   g_current_signal_data
     (idle_state\<lparr>float_mem := (float_mem idle_state)(2 \<mapsto> [0, 0, 22, 33])\<rparr>) = nullptr \<and>
   g_current_signal_size
     (idle_state\<lparr>float_mem := (float_mem idle_state)(2 \<mapsto> [0, 0, 22, 33])\<rparr>) = 0"
proof -
  have f: "(Ptr (0, 0) :: float_ptr) \<noteq> nullptr" and r: "(Ptr 0 :: result_ptr) \<noteq> nullptr"
    by simp_all
  have ok: "ei_run_classifier_ffi (example_runtime EI_IMPULSE_OK) (Ptr (0, 0)) (Ptr 0) 0 idle_state =
     Inr (0, idle_state\<lparr>float_mem := (float_mem idle_state)(2 \<mapsto> [0, 0, 22, 33])\<rparr>)"
    by (simp add: example_invocation)
  have bad: "ei_run_classifier_ffi (example_runtime (EI_IMPULSE_FAILURE (- 3))) (Ptr (0, 0)) (Ptr 0) 0 idle_state =
     Inr (- 1, idle_state\<lparr>float_mem := (float_mem idle_state)(2 \<mapsto> [0, 0, 22, 33])\<rparr>)"
    by (simp add: example_invocation)
  from ei_run_classifier_ffi_clears_context [OF f r ok]
       ei_run_classifier_ffi_clears_context [OF f r bad]
  show ?thesis
    using f r ok bad by simp
qed

text \<open>
  Claim C4. When the feature-buffer pointer or the result pointer is null,
  \<open>ei_run_classifier_ffi\<close> returns the failure status \<open>-1\<close> and the state is the one
  it was called in: no context is installed, the thread-local data pointer and size are
  unchanged. This holds for every runtime, also one that would change memory or end in a
  fault: the outcome does not depend on the runtime, which is not called.
\<close>

theorem ei_run_classifier_ffi_null_argument:
  assumes "features = nullptr \<or> result = nullptr"
  shows "ei_run_classifier_ffi run_classifier features result debug st = Inr (- 1, st)"
  using assms by (auto simp: ei_run_classifier_ffi_def)

theorem ei_run_classifier_ffi_null_argument_witness:
  "ei_run_classifier_ffi (example_runtime EI_IMPULSE_OK) nullptr (Ptr 0) 0 idle_state
     = Inr (- 1, idle_state) \<and>
   ei_run_classifier_ffi (example_runtime EI_IMPULSE_OK) (Ptr (0, 0)) nullptr 0 idle_state
     = Inr (- 1, idle_state)"
proof -
  have a: "(nullptr :: float_ptr) = nullptr \<or> (Ptr 0 :: result_ptr) = nullptr"
    by simp
  have b: "(Ptr (0, 0) :: float_ptr) = nullptr \<or> (nullptr :: result_ptr) = nullptr"
    by simp
  from ei_run_classifier_ffi_null_argument [OF a] ei_run_classifier_ffi_null_argument [OF b]
  show ?thesis by simp
qed

text \<open>
  Claim C5. For a non-null feature-buffer pointer and a non-null result pointer, when the
  external entry point, called with the signal handle on the state with the context
  installed, returns the outcome \<open>err\<close>, then \<open>ei_run_classifier_ffi\<close> returns the
  status 0 if \<open>err\<close> is \<open>EI_IMPULSE_OK\<close> and the single failure status \<open>-1\<close> for
  every other outcome.
\<close>

theorem ei_run_classifier_ffi_status:
  assumes "features \<noteq> nullptr" and "result \<noteq> nullptr"
      and "run_classifier
             \<lparr>total_length = EI_CLASSIFIER_DSP_INPUT_FRAME_SIZE, get_data = signal_get_data_callback\<rparr>
             result (debug \<noteq> 0)
             (st\<lparr>g_current_signal_data := features,
                 g_current_signal_size := EI_CLASSIFIER_DSP_INPUT_FRAME_SIZE\<rparr>) = Inr (err, st2)"
  shows "ei_run_classifier_ffi run_classifier features result debug st =
           Inr (if err = EI_IMPULSE_OK then 0 else - 1,
                st2\<lparr>g_current_signal_data := nullptr, g_current_signal_size := 0\<rparr>)"
  using assms by (simp add: ei_run_classifier_ffi_def)

theorem ei_run_classifier_ffi_status_witness:
  "ei_run_classifier_ffi (example_runtime EI_IMPULSE_OK) (Ptr (0, 0)) (Ptr 0) 1 idle_state =
     Inr (0, idle_state\<lparr>float_mem := (float_mem idle_state)(2 \<mapsto> [0, 0, 22, 33])\<rparr>) \<and>
   ei_run_classifier_ffi (example_runtime (EI_IMPULSE_FAILURE (- 3))) (Ptr (0, 0)) (Ptr 0) 1 idle_state =
     Inr (- 1, idle_state\<lparr>float_mem := (float_mem idle_state)(2 \<mapsto> [0, 0, 22, 33])\<rparr>)"
proof -
  have f: "(Ptr (0, 0) :: float_ptr) \<noteq> nullptr" and r: "(Ptr 0 :: result_ptr) \<noteq> nullptr"
    by simp_all
  have ok: "example_runtime EI_IMPULSE_OK
     \<lparr>total_length = EI_CLASSIFIER_DSP_INPUT_FRAME_SIZE, get_data = signal_get_data_callback\<rparr>
     (Ptr 0) ((1 :: int) \<noteq> 0)
     (idle_state\<lparr>g_current_signal_data := Ptr (0, 0),
        g_current_signal_size := EI_CLASSIFIER_DSP_INPUT_FRAME_SIZE\<rparr>) =
   Inr (EI_IMPULSE_OK,
        example_state\<lparr>float_mem := (float_mem example_state)(2 \<mapsto> [0, 0, 22, 33])\<rparr>)"
    by (rule example_runtime_run)
  have bad: "example_runtime (EI_IMPULSE_FAILURE (- 3))
     \<lparr>total_length = EI_CLASSIFIER_DSP_INPUT_FRAME_SIZE, get_data = signal_get_data_callback\<rparr>
     (Ptr 0) ((1 :: int) \<noteq> 0)
     (idle_state\<lparr>g_current_signal_data := Ptr (0, 0),
        g_current_signal_size := EI_CLASSIFIER_DSP_INPUT_FRAME_SIZE\<rparr>) =
   Inr (EI_IMPULSE_FAILURE (- 3),
        example_state\<lparr>float_mem := (float_mem example_state)(2 \<mapsto> [0, 0, 22, 33])\<rparr>)"
    by (rule example_runtime_run)
  from ei_run_classifier_ffi_status
         [where run_classifier = "example_runtime EI_IMPULSE_OK" and debug = 1, OF f r ok]
       ei_run_classifier_ffi_status
         [where run_classifier = "example_runtime (EI_IMPULSE_FAILURE (- 3))" and debug = 1,
          OF f r bad]
  show ?thesis
    by (simp add: example_cleared)
qed

section \<open>The result extractor: properties\<close>

lemma unat_label_count: "unat EI_CLASSIFIER_LABEL_COUNT = 4"
  by (simp add: EI_CLASSIFIER_LABEL_COUNT_def)

text \<open>
  The loop invariant: entered at counter \<open>i\<close> with valid pointers, the loop ends, and
  the floats from index \<open>i\<close> up to the label count of the destination are then the
  scores from \<open>i\<close> on; what lies before and after is kept.
\<close>

lemma values_loop_from:
  assumes res: "result_mem st r = Some res"
               "unat EI_CLASSIFIER_LABEL_COUNT \<le> length (classification res)"
      and out: "float_mem st b = Some ys" "j + unat EI_CLASSIFIER_LABEL_COUNT \<le> length ys"
      and i: "i \<le> EI_CLASSIFIER_LABEL_COUNT"
  shows "values_loop (Ptr r) (Ptr (b, j)) i st =
           Inr (st\<lparr>float_mem := (float_mem st)(b \<mapsto>
                  take (j + unat i) ys
                  @ map value_f (take (unat EI_CLASSIFIER_LABEL_COUNT - unat i)
                                   (drop (unat i) (classification res)))
                  @ drop (j + unat EI_CLASSIFIER_LABEL_COUNT) ys)\<rparr>)"
  using assms
proof (induction "Ptr r :: result_ptr" "Ptr (b, j) :: float_ptr" i st arbitrary: ys
       rule: values_loop.induct)
  case (1 i st)
  show ?case
  proof (cases "i < EI_CLASSIFIER_LABEL_COUNT")
    case False
    with "1.prems"(5) have "i = EI_CLASSIFIER_LABEL_COUNT" by simp
    then have "values_loop (Ptr r) (Ptr (b, j)) i st = Inr st"
      by (subst values_loop.simps) simp
    moreover have "st\<lparr>float_mem := (float_mem st)(b \<mapsto> ys)\<rparr> = st"
      using "1.prems"(3) by (simp add: fun_upd_idem)
    ultimately show ?thesis
      using \<open>i = EI_CLASSIFIER_LABEL_COUNT\<close> "1.prems"(4) by simp
  next
    case True
    then have lt: "unat i < 4"
      by (simp add: EI_CLASSIFIER_LABEL_COUNT_def word_less_nat_alt)
    then have suc: "unat (i + 1) = Suc (unat i)"
      by (simp add: unat_word_ariths)
    have le': "i + 1 \<le> EI_CLASSIFIER_LABEL_COUNT"
      using lt suc by (simp add: EI_CLASSIFIER_LABEL_COUNT_def word_le_nat_alt)
    note n4 = unat_label_count
    let ?cls = "classification res"
    let ?v = "value_f (?cls ! unat i)"
    let ?st' = "st\<lparr>float_mem := (float_mem st)(b \<mapsto> ys[j + unat i := ?v])\<rparr>"
    have rd: "read_classification_value (Ptr r) i st = Inr ?v"
      using "1.prems"(1,2) lt n4 by (simp add: read_classification_value_def)
    have wr: "write_float (Ptr (b, j)) i ?v st = Inr ?st'"
      using "1.prems"(3,4) lt n4 by (simp add: write_float_def)
    have IH: "values_loop (Ptr r) (Ptr (b, j)) (i + 1) ?st' =
           Inr (?st'\<lparr>float_mem := (float_mem ?st')(b \<mapsto>
                  take (j + unat (i + 1)) (ys[j + unat i := ?v])
                  @ map value_f (take (unat EI_CLASSIFIER_LABEL_COUNT - unat (i + 1))
                                   (drop (unat (i + 1)) ?cls))
                  @ drop (j + unat EI_CLASSIFIER_LABEL_COUNT) (ys[j + unat i := ?v]))\<rparr>)"
      using "1.prems"(1,2,4) le'
      by (intro "1.hyps" [OF True rd wr]) simp_all
    have t: "take (j + unat (i + 1)) (ys[j + unat i := ?v]) = take (j + unat i) ys @ [?v]"
      using "1.prems"(4) lt n4 suc by (simp add: take_Suc_conv_app_nth)
    have d: "drop (j + unat EI_CLASSIFIER_LABEL_COUNT) (ys[j + unat i := ?v])
           = drop (j + unat EI_CLASSIFIER_LABEL_COUNT) ys"
      using lt n4 by simp
    have c: "take (unat EI_CLASSIFIER_LABEL_COUNT - unat i) (drop (unat i) ?cls)
           = ?cls ! unat i
             # take (unat EI_CLASSIFIER_LABEL_COUNT - unat (i + 1)) (drop (unat (i + 1)) ?cls)"
    proof -
      have "drop (unat i) ?cls = ?cls ! unat i # drop (Suc (unat i)) ?cls"
        using "1.prems"(2) lt n4 by (simp add: Cons_nth_drop_Suc)
      moreover have "4 - unat i = Suc (4 - Suc (unat i))"
        using lt by simp
      ultimately show ?thesis
        using suc n4 by simp
    qed
    have "values_loop (Ptr r) (Ptr (b, j)) i st = values_loop (Ptr r) (Ptr (b, j)) (i + 1) ?st'"
      using True rd wr by (subst values_loop.simps) simp
    also note IH
    finally show ?thesis
      by (simp add: t d c)
  qed
qed

text \<open>
  Claim C6. \<open>ei_get_classification_values\<close> returns the failure status \<open>-1\<close> and
  leaves the state as it was, so nothing is written to the output array, when the result
  pointer or the destination pointer is null. When the result pointer addresses a result
  structure and the destination pointer addresses at least label-count floats, it returns
  success \<open>0\<close> and the destination block is what it was except that its label-count
  floats from the destination pointer on are the scores of the result structure, entry
  \<open>i\<close> being the \<open>value\<close> field of \<open>classification[i]\<close>, in that order and
  unchanged.
\<close>

theorem ei_get_classification_values_contract:
  "(result = nullptr \<or> out_values = nullptr \<longrightarrow>
      ei_get_classification_values result out_values st = Inr (- 1, st)) \<and>
   (result_mem st r = Some res \<and>
    unat EI_CLASSIFIER_LABEL_COUNT \<le> length (classification res) \<and>
    float_mem st b = Some ys \<and> j + unat EI_CLASSIFIER_LABEL_COUNT \<le> length ys \<longrightarrow>
      ei_get_classification_values (Ptr r) (Ptr (b, j)) st =
        Inr (0, st\<lparr>float_mem := (float_mem st)(b \<mapsto>
               take j ys
               @ map value_f (take (unat EI_CLASSIFIER_LABEL_COUNT) (classification res))
               @ drop (j + unat EI_CLASSIFIER_LABEL_COUNT) ys)\<rparr>))"
proof (intro conjI impI)
  assume "result = nullptr \<or> out_values = nullptr"
  then show "ei_get_classification_values result out_values st = Inr (- 1, st)"
    by (auto simp: ei_get_classification_values_def)
next
  assume valid: "result_mem st r = Some res \<and>
    unat EI_CLASSIFIER_LABEL_COUNT \<le> length (classification res) \<and>
    float_mem st b = Some ys \<and> j + unat EI_CLASSIFIER_LABEL_COUNT \<le> length ys"
  have "values_loop (Ptr r) (Ptr (b, j)) 0 st =
           Inr (st\<lparr>float_mem := (float_mem st)(b \<mapsto>
                  take (j + unat (0 :: size_t)) ys
                  @ map value_f (take (unat EI_CLASSIFIER_LABEL_COUNT - unat (0 :: size_t))
                                   (drop (unat (0 :: size_t)) (classification res)))
                  @ drop (j + unat EI_CLASSIFIER_LABEL_COUNT) ys)\<rparr>)"
    using valid by (intro values_loop_from) simp_all
  then show "ei_get_classification_values (Ptr r) (Ptr (b, j)) st =
        Inr (0, st\<lparr>float_mem := (float_mem st)(b \<mapsto>
               take j ys
               @ map value_f (take (unat EI_CLASSIFIER_LABEL_COUNT) (classification res))
               @ drop (j + unat EI_CLASSIFIER_LABEL_COUNT) ys)\<rparr>)"
    by (simp add: ei_get_classification_values_def)
qed

lemma example_scores:
  "map value_f (take 4 (classification example_result)) = [5, 6, 7, 8]"
  by (simp add: example_result_def)

theorem ei_get_classification_values_contract_witness:
  "ei_get_classification_values nullptr (Ptr (2, 0)) example_state = Inr (- 1, example_state) \<and>
   ei_get_classification_values (Ptr 0) nullptr example_state = Inr (- 1, example_state) \<and>
   ei_get_classification_values (Ptr 0) (Ptr (2, 0)) example_state =
     Inr (0, example_state\<lparr>float_mem := (float_mem example_state)(2 \<mapsto> [5, 6, 7, 8])\<rparr>)"
proof -
  have valid: "result_mem example_state 0 = Some example_result \<and>
    unat EI_CLASSIFIER_LABEL_COUNT \<le> length (classification example_result) \<and>
    float_mem example_state 2 = Some [0, 0, 0, 0] \<and>
    0 + unat EI_CLASSIFIER_LABEL_COUNT \<le> length [0 :: cfloat, 0, 0, 0]"
    by (simp add: example_state_simps unat_label_count example_result_def)
  from ei_get_classification_values_contract
         [of nullptr "Ptr (2, 0)" example_state 0 example_result 2 "[0, 0, 0, 0]" 0]
       ei_get_classification_values_contract
         [of "Ptr 0" nullptr example_state 0 example_result 2 "[0, 0, 0, 0]" 0]
       valid
  show ?thesis
    by (simp add: unat_label_count example_scores)
qed

section \<open>The host primitives: properties\<close>

text \<open>
  Claim C8. For every negative duration, \<open>ei_sleep\<close> returns \<open>EI_IMPULSE_OK\<close> and the
  platform is as before: no call of \<open>vTaskDelay\<close> is made, whatever the tick conversion
  is.
\<close>

theorem ei_sleep_negative_duration:
  assumes "sint time_ms < 0"
  shows "ei_sleep pdMS_TO_TICKS time_ms p = (EI_IMPULSE_OK, p)"
  using assms by (simp add: ei_sleep_def word_sless_alt)

theorem ei_sleep_negative_duration_witness:
  "sint (- 5 :: int32_t) < 0 \<and>
   ei_sleep (\<lambda>ms. ms div 10) (- 5) \<lparr>delay_calls = [], log_calls = []\<rparr>
     = (EI_IMPULSE_OK, \<lparr>delay_calls = [], log_calls = []\<rparr>)"
proof -
  have neg: "sint (- 5 :: int32_t) < 0"
    by simp
  from neg ei_sleep_negative_duration [OF neg, of "\<lambda>ms. ms div 10" "\<lparr>delay_calls = [], log_calls = []\<rparr>"]
  show ?thesis by simp
qed

text \<open>A duration that is not negative is passed on to \<open>vTaskDelay\<close>, once.\<close>

lemma ei_sleep_delays:
  assumes "0 \<le> sint time_ms"
  shows "ei_sleep pdMS_TO_TICKS time_ms p =
           (EI_IMPULSE_OK, p\<lparr>delay_calls := delay_calls p @ [pdMS_TO_TICKS time_ms]\<rparr>)"
  using assms by (simp add: ei_sleep_def word_sless_alt vTaskDelay_def)

text \<open>
  \<open>ei_printf\<close> logs a message only if its formatted length is from 1 to 255; a longer
  one is not logged.
\<close>

lemma ei_printf_long:
  assumes "256 \<le> length text"
  shows "ei_printf text p = p"
  using assms by (simp add: ei_printf_def vsnprintf_def)

lemma ei_printf_short:
  assumes "0 < length text" and "length text < 256"
  shows "ei_printf text p = ESP_LOGI ''EI'' (c_string text) p"
  using assms by (simp add: ei_printf_def vsnprintf_def)

text \<open>
  Claim C9, as stated, at a message of 256 characters: its formatted length meets the
  buffer length, and the claim has it routed to the logging facility, truncated. The code
  logs nothing: the log is empty after the call.
\<close>

theorem ei_printf_long_message_not_logged:
  "256 \<le> length (replicate 256 (CHR ''x'')) \<and>
   log_calls (ei_printf (replicate 256 (CHR ''x'')) \<lparr>delay_calls = [], log_calls = []\<rparr>) = []"
proof -
  have long: "256 \<le> length (replicate 256 (CHR ''x''))"
    by simp
  from long ei_printf_long [OF long] show ?thesis
    by simp
qed

text \<open>
  Claim C9, amended. For every message whose formatted length meets or exceeds the buffer
  length 256, the formatting is bounded: the buffer receives the first 255 characters only.
  The message is then not routed to the logging facility: \<open>ei_printf\<close> leaves the
  platform, and so the log, as it was.
\<close>

theorem ei_printf_long_message_dropped:
  assumes "256 \<le> length text"
  shows "fst (vsnprintf 256 text) = take 255 text \<and>
         log_calls (ei_printf text p) = log_calls p \<and> ei_printf text p = p"
  using assms by (simp add: ei_printf_long vsnprintf_def)

theorem ei_printf_long_message_dropped_witness:
  "256 \<le> length (replicate 300 (CHR ''y'')) \<and>
   fst (vsnprintf 256 (replicate 300 (CHR ''y''))) = replicate 255 (CHR ''y'') \<and>
   ei_printf (replicate 300 (CHR ''y'')) \<lparr>delay_calls = [], log_calls = []\<rparr>
     = \<lparr>delay_calls = [], log_calls = []\<rparr>"
proof -
  have long: "256 \<le> length (replicate 300 (CHR ''y''))"
    by simp
  from long ei_printf_long_message_dropped [OF long, of "\<lparr>delay_calls = [], log_calls = []\<rparr>"]
  show ?thesis by simp
qed

end
